theory Spec2Isabelle
  imports Main
begin

section \<open>Python values and iterators\<close>

text \<open>
  The module \<^verbatim>\<open>bidict/_util.py\<close> works on Python iterators. An iterator is modelled by
  the sequence of values it yields when it is consumed: \<open>Stop\<close> is an iterator that
  raises StopIteration at once, \<open>Yield x it\<close> yields \<open>x\<close> and continues as \<open>it\<close>.
  The type is coinductive, so that an iterator may yield for ever (a generator that never
  returns, \<^verbatim>\<open>itertools.repeat(x)\<close>) and nothing is computed before it is asked for.
\<close>

codatatype 'a iterator = Stop | Yield 'a "'a iterator"

text \<open>\<^verbatim>\<open>iter(xs)\<close> of a list, or of the items view of a dict.\<close>

primrec iter_list :: "'a list \<Rightarrow> 'a iterator" where
  "iter_list [] = Stop"
| "iter_list (x # xs) = Yield x (iter_list xs)"

text \<open>
  \<^verbatim>\<open>itertools.chain(a, b)\<close>: the elements of \<open>a\<close>, then those of \<open>b\<close>; \<open>b\<close> is
  looked at only once \<open>a\<close> is exhausted.
\<close>

primcorec chain :: "'a iterator \<Rightarrow> 'a iterator \<Rightarrow> 'a iterator" where
  "chain a b =
     (case a of
        Stop \<Rightarrow> b
      | Yield x a' \<Rightarrow> Yield x (chain a' b))"

text \<open>
  \<^verbatim>\<open>list(it)\<close>: consumes the iterator; it does not return on an iterator that yields
  for ever, which is the value \<open>None\<close> here.
\<close>

partial_function (option) py_list :: "'a iterator \<Rightarrow> 'a list option" where
  "py_list it =
     (case it of
        Stop \<Rightarrow> Some []
      | Yield x it' \<Rightarrow> Option.bind (py_list it') (\<lambda>xs. Some (x # xs)))"

text \<open>
  A key of the combined sequence is a Python object: a \<^verbatim>\<open>str\<close> (the names of keyword
  arguments are) or any other object, of an opaque type.
\<close>

datatype 'a pyval = PyStr string | PyOther 'a

text \<open>
  What \<^verbatim>\<open>getattr(arg, '__inverted__', None)\<close> can return: \<^verbatim>\<open>None\<close>, an object that
  is not callable, or a callable taking no argument.
\<close>

datatype 'r pyattr = PyNone | NonCallable 'r | Callable "unit \<Rightarrow> 'r"

text \<open>\<^verbatim>\<open>callable(inv)\<close>.\<close>

fun callable :: "'r pyattr \<Rightarrow> bool" where
  "callable (Callable f) = True"
| "callable PyNone = False"
| "callable (NonCallable x) = False"

text \<open>
  \<^verbatim>\<open>MapOrIterPair = Union[Mapping[KT, VT], Iterable[Tuple[KT, VT]]]\<close>: the argument is
  an instance of \<^verbatim>\<open>Mapping\<close>, with its items view (finite, in the mapping's order), or
  another iterable of pairs.
\<close>

datatype ('k, 'v) MapOrIterPair =
    Mapping "('k \<times> 'v) list"
  | IterPair "('k \<times> 'v) iterator"

text \<open>
  An argument object: what it holds, its truth value (\<^verbatim>\<open>bool(arg)\<close>, which a class may
  define as it likes through \<^verbatim>\<open>__bool__\<close> or \<^verbatim>\<open>__len__\<close>), and its attribute
  \<^verbatim>\<open>__inverted__\<close> when it has one.
\<close>

record ('k, 'v) pyobj =
  contents :: "('k, 'v) MapOrIterPair"
  truthy :: bool
  inverted_attr :: "('v \<times> 'k) iterator pyattr option"

text \<open>The built-in objects: a dict and a list of pairs are true when they are not empty.\<close>

definition dict_obj :: "('k \<times> 'v) list \<Rightarrow> ('k, 'v) pyobj" where
  "dict_obj kvs = \<lparr>contents = Mapping kvs, truthy = (kvs \<noteq> []), inverted_attr = None\<rparr>"

definition list_obj :: "('k \<times> 'v) list \<Rightarrow> ('k, 'v) pyobj" where
  "list_obj kvs =
     \<lparr>contents = IterPair (iter_list kvs), truthy = (kvs \<noteq> []), inverted_attr = None\<rparr>"

definition getattr_inverted :: "('k, 'v) pyobj \<Rightarrow> ('v \<times> 'k) iterator pyattr" where
  "getattr_inverted arg = (case inverted_attr arg of None \<Rightarrow> PyNone | Some a \<Rightarrow> a)"

datatype error = TypeError string

text \<open>\<^verbatim>\<open>str(n)\<close> of a natural number, as the f-string of the error message formats it.\<close>

definition digit_char :: "nat \<Rightarrow> char" where
  "digit_char d = char_of (48 + d)"

fun str_nat :: "nat \<Rightarrow> string" where
  "str_nat n = (if n < 10 then [digit_char n] else str_nat (n div 10) @ [digit_char (n mod 10)])"

declare str_nat.simps [simp del]

text \<open>\<^verbatim>\<open>itertools.repeat(x)\<close>: yields \<open>x\<close> for ever.\<close>

primcorec repeat :: "'a \<Rightarrow> 'a iterator" where
  "repeat x = Yield x (repeat x)"

section \<open>The functions of \<^verbatim>\<open>_util.py\<close>\<close>

definition NULL_IT :: "'a iterator" where
  "NULL_IT = Stop"

definition iteritems_mapping_or_iterable :: "('k, 'v) pyobj \<Rightarrow> ('k \<times> 'v) iterator" where
  "iteritems_mapping_or_iterable arg =
     (case contents arg of
        Mapping kvs \<Rightarrow> iter_list kvs
      | IterPair it \<Rightarrow> it)"

text \<open>\<^verbatim>\<open>iter(kw.items())\<close>: the names of the keyword arguments are strings.\<close>

definition kw_items :: "(string \<times> 'v) list \<Rightarrow> ('a pyval \<times> 'v) list" where
  "kw_items kw = map (\<lambda>(name, v). (PyStr name, v)) kw"

text \<open>
  \<open>itemchain\<close> is \<^verbatim>\<open>None\<close> or an iterator object, and an iterator object is true, so
  \<^verbatim>\<open>if itemchain\<close> and \<^verbatim>\<open>itemchain or _NULL_IT\<close> test for \<^verbatim>\<open>None\<close>. The positional
  arguments have the annotated type, so that their truth test and \<^verbatim>\<open>iter\<close> raise nothing.
  The function is not a generator: the TypeError is raised by the call itself, as the
  left summand of the result, before any iterator exists.
\<close>

definition iteritems_args_kw ::
  "('a pyval, 'v) pyobj list \<Rightarrow> (string \<times> 'v) list \<Rightarrow> error + ('a pyval \<times> 'v) iterator" where
  "iteritems_args_kw args kw =
     (let args_len = length args in
      if args_len > 1
      then Inl (TypeError (''Expected at most 1 positional argument, got '' @ str_nat args_len))
      else
        let itemchain0 =
              (case args of
                 [] \<Rightarrow> None
               | arg # _ \<Rightarrow>
                   if truthy arg then Some (iteritems_mapping_or_iterable arg) else None);
            itemchain =
              (if kw \<noteq> []
               then (let iterkw = iter_list (kw_items kw) in
                     case itemchain0 of
                       Some it \<Rightarrow> Some (chain it iterkw)
                     | None \<Rightarrow> Some iterkw)
               else itemchain0)
        in Inr (case itemchain of Some it \<Rightarrow> it | None \<Rightarrow> NULL_IT))"

text \<open>
  The generator expression \<^verbatim>\<open>((val, key) for (key, val) in it)\<close>: it asks \<open>it\<close> for
  a pair only when it is itself asked for one.
\<close>

primcorec genexpr_val_key :: "('k \<times> 'v) iterator \<Rightarrow> ('v \<times> 'k) iterator" where
  "genexpr_val_key it =
     (case it of
        Stop \<Rightarrow> Stop
      | Yield kv it' \<Rightarrow> Yield (snd kv, fst kv) (genexpr_val_key it'))"

text \<open>
  \<open>inv\<close> is callable exactly when it is a \<open>Callable\<close>; then \<^verbatim>\<open>inv()\<close> is returned as
  it is.
\<close>

definition inverted :: "('k, 'v) pyobj \<Rightarrow> ('v \<times> 'k) iterator" where
  "inverted arg =
     (let inv = getattr_inverted arg in
      case inv of
        Callable f \<Rightarrow> f ()
      | _ \<Rightarrow> genexpr_val_key (iteritems_mapping_or_iterable arg))"

section \<open>Iterators of lists, chaining and swapping\<close>

text \<open>The corecursive functions, one step at a time.\<close>

lemma chain_Stop: "chain Stop b = b"
  by (simp add: chain.code)

lemma chain_Yield: "chain (Yield x a) b = Yield x (chain a b)"
  by (simp add: chain.code)

lemma genexpr_Stop: "genexpr_val_key Stop = Stop"
  by (simp add: genexpr_val_key.code)

lemma genexpr_Yield: "genexpr_val_key (Yield kv it) = Yield (snd kv, fst kv) (genexpr_val_key it)"
  by (simp add: genexpr_val_key.code)

text \<open>On the iterators of lists they are append and map, and \<^verbatim>\<open>list\<close> returns the list.\<close>

lemma chain_iter_list: "chain (iter_list xs) (iter_list ys) = iter_list (xs @ ys)"
  by (induction xs) (simp_all add: chain_Stop chain_Yield)

lemma genexpr_iter_list: "genexpr_val_key (iter_list xs) = iter_list (map prod.swap xs)"
  by (induction xs) (simp_all add: genexpr_Stop genexpr_Yield prod.swap_def)

lemma py_list_iter_list: "py_list (iter_list xs) = Some xs"
  by (induction xs) (simp_all add: py_list.simps)

text \<open>The generator expression swaps every pair, of an endless iterator too.\<close>

lemma genexpr_map: "genexpr_val_key it = map_iterator prod.swap it"
  by (coinduction arbitrary: it) (auto simp: iterator.case_eq_if iterator.map_sel prod.swap_def)

text \<open>Chaining after an endless iterator never reaches the second one.\<close>

lemma chain_repeat: "chain (repeat x) b = repeat x"
  by (coinduction) (simp add: iterator.case_eq_if)

lemma set_repeat_aux: "y \<in> set_iterator it \<Longrightarrow> it = repeat x \<Longrightarrow> y = x"
  apply (induction y it rule: iterator.set_induct)
   apply (metis iterator.sel(1) repeat.simps(2))
  apply (metis iterator.sel(2) repeat.simps(3))
  done

lemma set_repeat: "set_iterator (repeat x) = {x}"
proof -
  have "x \<in> set_iterator (repeat x)"
    by (subst repeat.code) simp
  then show ?thesis
    using set_repeat_aux [of _ "repeat x" x] by blast
qed

text \<open>\<^verbatim>\<open>callable\<close> holds of the callables only.\<close>

lemma callable_iff: "callable a = (\<exists>f. a = Callable f)"
  by (cases a) simp_all

section \<open>Properties\<close>

text \<open>
  C1: the call raises the TypeError exactly when more than one positional argument is
  given, whatever the arguments are; the error is the result of the call itself, and its
  message ends with the number of positional arguments received, in decimal.
\<close>

theorem C1_arity_error:
  "(\<exists>e. iteritems_args_kw args kw = Inl e) = (1 < length args) \<and>
   (1 < length args \<longrightarrow>
      iteritems_args_kw args kw =
        Inl (TypeError (''Expected at most 1 positional argument, got '' @ str_nat (length args))))"
  by (simp add: iteritems_args_kw_def Let_def)

theorem C1_arity_error_witness:
  "1 < length [dict_obj [], dict_obj [(PyStr ''a'', 1::int)] :: (unit pyval, int) pyobj] \<and>
   iteritems_args_kw [dict_obj [], dict_obj [(PyStr ''a'', 1::int)] :: (unit pyval, int) pyobj]
       [(''b'', 2)] =
     Inl (TypeError ''Expected at most 1 positional argument, got 2'')"
proof -
  have "str_nat (Suc (Suc 0)) = ''2''"
    by code_simp
  then show ?thesis
    using C1_arity_error [of "[dict_obj [], dict_obj [(PyStr ''a'', 1::int)] :: (unit pyval, int) pyobj]"
        "[(''b'', 2)]"]
    by simp
qed

text \<open>
  C2: for a \<^verbatim>\<open>Mapping\<close> the returned iterator yields the pairs of the items view, in
  their order, and no more; for any other argument it is the iterator over the argument
  itself, unchanged. Every argument object has one of the two forms.
\<close>

theorem C2_normalize_source:
  "iteritems_mapping_or_iterable \<lparr>contents = Mapping kvs, truthy = t, inverted_attr = a\<rparr> =
     iter_list kvs \<and>
   py_list (iteritems_mapping_or_iterable \<lparr>contents = Mapping kvs, truthy = t, inverted_attr = a\<rparr>) =
     Some kvs \<and>
   iteritems_mapping_or_iterable \<lparr>contents = IterPair it, truthy = t, inverted_attr = a\<rparr> = it"
  by (simp add: iteritems_mapping_or_iterable_def py_list_iter_list)

text \<open>
  C3: when \<^verbatim>\<open>__inverted__\<close> is absent or not callable, \<^verbatim>\<open>inverted(arg)\<close> yields the pairs
  of \<^verbatim>\<open>_iteritems_mapping_or_iterable(arg)\<close>, each one swapped, in the same order; this
  holds for an iterable that yields for ever as well.
\<close>

theorem C3_default_inversion:
  "\<not> callable (getattr_inverted arg) \<Longrightarrow>
   inverted arg = map_iterator prod.swap (iteritems_mapping_or_iterable arg)"
  by (cases "getattr_inverted arg") (simp_all add: inverted_def genexpr_map)

theorem C3_default_inversion_witness:
  "\<not> callable (getattr_inverted (dict_obj [(''a'', 1::int), (''b'', 2)])) \<and>
   inverted (dict_obj [(''a'', 1::int), (''b'', 2)]) = iter_list [(1, ''a''), (2, ''b'')]"
  using C3_default_inversion [of "dict_obj [(''a'', 1::int), (''b'', 2)]"]
  by (simp add: dict_obj_def getattr_inverted_def iteritems_mapping_or_iterable_def)

text \<open>
  C4: when \<^verbatim>\<open>__inverted__\<close> is callable, it is called with no argument and its result is
  what \<^verbatim>\<open>inverted\<close> returns; the items of the argument play no part.
\<close>

theorem C4_hook_result:
  "inverted_attr arg = Some (Callable hook) \<Longrightarrow>
   callable (getattr_inverted arg) \<and> inverted arg = hook ()"
  by (simp add: inverted_def getattr_inverted_def)

theorem C4_hook_result_witness:
  "inverted_attr \<lparr>contents = Mapping [(''a'', 1::int)], truthy = True,
       inverted_attr = Some (Callable (\<lambda>_. iter_list [(9::int, ''z'')]))\<rparr> =
     Some (Callable (\<lambda>_. iter_list [(9::int, ''z'')])) \<and>
   inverted \<lparr>contents = Mapping [(''a'', 1::int)], truthy = True,
       inverted_attr = Some (Callable (\<lambda>_. iter_list [(9::int, ''z'')]))\<rparr> =
     iter_list [(9, ''z'')]"
  using C4_hook_result [of "\<lparr>contents = Mapping [(''a'', 1::int)], truthy = True,
       inverted_attr = Some (Callable (\<lambda>_. iter_list [(9::int, ''z'')]))\<rparr>"
       "\<lambda>_. iter_list [(9::int, ''z'')]"]
  by simp

text \<open>
  C5: with one positional argument that is true (Python's test of emptiness,
  \<^verbatim>\<open>if arg\<close>) and at least one keyword argument, the result chains the items of the
  positional argument and then the (name, value) pairs of the keyword arguments; when
  the positional items are the finite list \<open>ps\<close>, the result yields \<open>ps\<close> followed by the
  keyword pairs.
\<close>

theorem C5_positional_then_keywords:
  "truthy arg \<Longrightarrow> kw \<noteq> [] \<Longrightarrow>
   iteritems_args_kw [arg] kw =
     Inr (chain (iteritems_mapping_or_iterable arg) (iter_list (kw_items kw))) \<and>
   (iteritems_mapping_or_iterable arg = iter_list ps \<longrightarrow>
      iteritems_args_kw [arg] kw = Inr (iter_list (ps @ kw_items kw)))"
  by (simp add: iteritems_args_kw_def Let_def chain_iter_list)

theorem C5_positional_then_keywords_witness:
  "truthy (dict_obj [(PyStr ''a'' :: unit pyval, 1::int)]) \<and> [(''b'', 2::int)] \<noteq> [] \<and>
   iteritems_mapping_or_iterable (dict_obj [(PyStr ''a'' :: unit pyval, 1::int)]) =
     iter_list [(PyStr ''a'', 1)] \<and>
   iteritems_args_kw [dict_obj [(PyStr ''a'' :: unit pyval, 1::int)]] [(''b'', 2)] =
     Inr (iter_list [(PyStr ''a'', 1), (PyStr ''b'', 2)])"
  using C5_positional_then_keywords [of "dict_obj [(PyStr ''a'' :: unit pyval, 1::int)]" "[(''b'', 2)]"
      "[(PyStr ''a'', 1)]"]
  by (simp add: dict_obj_def iteritems_mapping_or_iterable_def kw_items_def chain_Stop chain_Yield)

text \<open>
  C6: a positional argument that is false is handled as if no positional argument had
  been given, whatever it holds: the result yields the keyword pairs only (none when
  there is no keyword argument).
\<close>

theorem C6_falsy_positional_skipped:
  "\<not> truthy arg \<Longrightarrow>
   iteritems_args_kw [arg] kw = iteritems_args_kw [] kw \<and>
   iteritems_args_kw [arg] kw = Inr (iter_list (kw_items kw))"
  by (cases kw) (simp_all add: iteritems_args_kw_def Let_def NULL_IT_def kw_items_def)

theorem C6_falsy_positional_skipped_witness:
  "\<not> truthy \<lparr>contents = Mapping [(PyStr ''a'' :: unit pyval, 1::int)], truthy = False,
        inverted_attr = None\<rparr> \<and>
   iteritems_args_kw [\<lparr>contents = Mapping [(PyStr ''a'' :: unit pyval, 1::int)], truthy = False,
        inverted_attr = None\<rparr>] [(''b'', 2)] =
     Inr (iter_list [(PyStr ''b'', 2)])"
proof -
  have falsy: "\<not> truthy \<lparr>contents = Mapping [(PyStr ''a'' :: unit pyval, 1::int)],
      truthy = False, inverted_attr = None\<rparr>"
    by simp
  show ?thesis
    using falsy C6_falsy_positional_skipped [OF falsy, of "[(''b'', 2)]", THEN conjunct2]
    by (simp add: kw_items_def)
qed

text \<open>
  C7: called with no positional argument and no keyword argument, the function raises
  nothing and returns an iterator that yields no pair.
\<close>

theorem C7_no_arguments_empty:
  "iteritems_args_kw [] [] = Inr Stop \<and>
   map_sum id py_list (iteritems_args_kw [] [] :: error + ('a pyval \<times> 'v) iterator) =
     Inr (Some [])"
  by (simp add: iteritems_args_kw_def NULL_IT_def py_list.simps)

text \<open>
  C8: for a \<^verbatim>\<open>Mapping\<close> \<open>m\<close> without callable \<^verbatim>\<open>__inverted__\<close>,
  \<^verbatim>\<open>list(inverted(m))\<close> returns the swapped items, and
  \<^verbatim>\<open>list(inverted(list(inverted(m))))\<close> returns the items of \<open>m\<close> in their order. The
  values need not be unique for this.
\<close>

theorem C8_double_inversion:
  "contents m = Mapping kvs \<Longrightarrow> \<not> callable (getattr_inverted m) \<Longrightarrow>
   py_list (inverted m) = Some (map prod.swap kvs) \<and>
   py_list (inverted (list_obj (map prod.swap kvs))) = Some kvs"
proof -
  assume m: "contents m = Mapping kvs" and nc: "\<not> callable (getattr_inverted m)"
  have default: "inverted x = genexpr_val_key (iteritems_mapping_or_iterable x)"
    if "\<not> callable (getattr_inverted x)" for x :: "('c, 'd) pyobj"
    using that by (cases "getattr_inverted x") (simp_all add: inverted_def)
  have first: "inverted m = iter_list (map prod.swap kvs)"
    using m nc by (simp add: default iteritems_mapping_or_iterable_def genexpr_iter_list)
  have "\<not> callable (getattr_inverted (list_obj (map prod.swap kvs)))"
    by (simp add: list_obj_def getattr_inverted_def)
  then have "inverted (list_obj (map prod.swap kvs)) =
      genexpr_val_key (iteritems_mapping_or_iterable (list_obj (map prod.swap kvs)))"
    by (rule default)
  also have "\<dots> = genexpr_val_key (iter_list (map prod.swap kvs))"
    by (simp add: iteritems_mapping_or_iterable_def list_obj_def)
  also have "\<dots> = iter_list (map prod.swap (map prod.swap kvs))"
    by (rule genexpr_iter_list)
  also have "map prod.swap (map prod.swap kvs) = kvs"
    by (simp add: comp_def)
  finally have second: "inverted (list_obj (map prod.swap kvs)) = iter_list kvs" .
  show ?thesis
    by (simp add: first second py_list_iter_list)
qed

theorem C8_double_inversion_witness:
  "contents (dict_obj [(''a'', 1::int), (''b'', 2)]) = Mapping [(''a'', 1), (''b'', 2)] \<and>
   \<not> callable (getattr_inverted (dict_obj [(''a'', 1::int), (''b'', 2)])) \<and>
   py_list (inverted (dict_obj [(''a'', 1::int), (''b'', 2)])) = Some [(1, ''a''), (2, ''b'')] \<and>
   py_list (inverted (list_obj [(1::int, ''a''), (2, ''b'')])) = Some [(''a'', 1), (''b'', 2)]"
  using C8_double_inversion [of "dict_obj [(''a'', 1::int), (''b'', 2)]" "[(''a'', 1), (''b'', 2)]"]
  by (simp add: dict_obj_def getattr_inverted_def)

text \<open>
  C9: when the attribute \<^verbatim>\<open>__inverted__\<close> exists and is not callable (it is
  \<^verbatim>\<open>None\<close> or some data), \<^verbatim>\<open>inverted\<close> swaps the pairs of the argument as if the
  attribute were absent.
\<close>

theorem C9_non_callable_hook_ignored:
  "inverted_attr arg = Some a \<Longrightarrow> \<not> callable a \<Longrightarrow>
   inverted arg = map_iterator prod.swap (iteritems_mapping_or_iterable arg)"
  by (cases a) (simp_all add: inverted_def getattr_inverted_def genexpr_map)

theorem C9_non_callable_hook_ignored_witness:
  "inverted_attr \<lparr>contents = Mapping [(''a'', 1::int)], truthy = True,
       inverted_attr = Some (NonCallable (iter_list [(9::int, ''z'')]))\<rparr> =
     Some (NonCallable (iter_list [(9, ''z'')])) \<and>
   \<not> callable (NonCallable (iter_list [(9::int, ''z'')])) \<and>
   inverted \<lparr>contents = Mapping [(''a'', 1::int)], truthy = True,
       inverted_attr = Some (NonCallable (iter_list [(9::int, ''z'')]))\<rparr> =
     iter_list [(1, ''a'')]"
  using C9_non_callable_hook_ignored [of "\<lparr>contents = Mapping [(''a'', 1::int)], truthy = True,
       inverted_attr = Some (NonCallable (iter_list [(9::int, ''z'')]))\<rparr>"
       "NonCallable (iter_list [(9::int, ''z'')])"]
  by (simp add: iteritems_mapping_or_iterable_def)

text \<open>
  C10, for a positional argument that is true and yields finitely many pairs \<open>ps\<close>: when
  a key is at position \<open>i\<close> of \<open>ps\<close> and is the name of the keyword argument at position
  \<open>j\<close>, the result yields all pairs of \<open>ps\<close> and then all keyword pairs, the positional
  pair at position \<open>i\<close> and the keyword pair after it at position \<open>length ps + j\<close>.
\<close>

theorem C10_no_deduplication:
  "truthy arg \<Longrightarrow> iteritems_mapping_or_iterable arg = iter_list ps \<Longrightarrow>
   i < length ps \<Longrightarrow> ps ! i = (PyStr name, v) \<Longrightarrow>
   j < length kw \<Longrightarrow> kw ! j = (name, w) \<Longrightarrow>
   \<exists>out. iteritems_args_kw [arg] kw = Inr (iter_list out) \<and>
     py_list (iter_list out) = Some out \<and>
     length out = length ps + length kw \<and>
     out ! i = (PyStr name, v) \<and> out ! (length ps + j) = (PyStr name, w)"
proof -
  assume t: "truthy arg" and ps: "iteritems_mapping_or_iterable arg = iter_list ps"
    and i: "i < length ps" "ps ! i = (PyStr name, v)"
    and j: "j < length kw" "kw ! j = (name, w)"
  from j have "kw \<noteq> []" by auto
  with t ps have res: "iteritems_args_kw [arg] kw = Inr (iter_list (ps @ kw_items kw))"
    by (simp add: iteritems_args_kw_def Let_def chain_iter_list)
  have len: "length (ps @ kw_items kw) = length ps + length kw"
    by (simp add: kw_items_def)
  have pos: "(ps @ kw_items kw) ! i = (PyStr name, v)"
    using i by (simp add: nth_append)
  have key: "(ps @ kw_items kw) ! (length ps + j) = (PyStr name, w)"
    using j by (simp add: kw_items_def)
  show ?thesis
    using res len pos key py_list_iter_list by blast
qed

theorem C10_no_deduplication_witness:
  "truthy (dict_obj [(PyStr ''a'' :: unit pyval, 1::int)]) \<and>
   iteritems_mapping_or_iterable (dict_obj [(PyStr ''a'' :: unit pyval, 1::int)]) =
     iter_list [(PyStr ''a'', 1)] \<and>
   (0::nat) < length [(PyStr ''a'' :: unit pyval, 1::int)] \<and>
   [(PyStr ''a'' :: unit pyval, 1::int)] ! 0 = (PyStr ''a'', 1) \<and>
   (0::nat) < length [(''a'', 2::int)] \<and> [(''a'', 2::int)] ! 0 = (''a'', 2) \<and>
   iteritems_args_kw [dict_obj [(PyStr ''a'' :: unit pyval, 1::int)]] [(''a'', 2)] =
     Inr (iter_list [(PyStr ''a'', 1), (PyStr ''a'', 2)])"
proof -
  have pre: "truthy (dict_obj [(PyStr ''a'' :: unit pyval, 1::int)])"
    "iteritems_mapping_or_iterable (dict_obj [(PyStr ''a'' :: unit pyval, 1::int)]) =
       iter_list [(PyStr ''a'', 1)]"
    by (simp_all add: dict_obj_def iteritems_mapping_or_iterable_def)
  obtain out where out:
    "iteritems_args_kw [dict_obj [(PyStr ''a'' :: unit pyval, 1::int)]] [(''a'', 2::int)] =
       Inr (iter_list out)"
    "length out = length [(PyStr ''a'' :: unit pyval, 1::int)] + length [(''a'', 2::int)]"
    "out ! 0 = (PyStr ''a'', 1)"
    "out ! (length [(PyStr ''a'' :: unit pyval, 1::int)] + 0) = (PyStr ''a'', 2)"
    using C10_no_deduplication [OF pre, of 0 "''a''" 1 0 "[(''a'', 2::int)]" 2] by auto
  from out(2-4) have "out = [(PyStr ''a'', 1), (PyStr ''a'', 2)]"
    by (cases out; cases "tl out"; cases "tl (tl out)") auto
  with out(1) pre show ?thesis by simp
qed

text \<open>
  The statement fails at one endless input: with the true positional argument
  \<^verbatim>\<open>itertools.repeat(('a', 1))\<close> and the keyword argument \<^verbatim>\<open>a=2\<close>, the key \<^verbatim>\<open>'a'\<close> is
  in both, and the result yields \<^verbatim>\<open>('a', 1)\<close> for ever and never \<^verbatim>\<open>('a', 2)\<close>.
\<close>

theorem C10_no_deduplication_counterexample:
  "truthy \<lparr>contents = IterPair (repeat (PyStr ''a'' :: unit pyval, 1::int)), truthy = True,
       inverted_attr = None\<rparr> \<and>
   (PyStr ''a'', 1) \<in> set_iterator (iteritems_mapping_or_iterable
       \<lparr>contents = IterPair (repeat (PyStr ''a'' :: unit pyval, 1::int)), truthy = True,
        inverted_attr = None\<rparr>) \<and>
   (''a'', 2) \<in> set [(''a'', 2::int)] \<and>
   iteritems_args_kw
       [\<lparr>contents = IterPair (repeat (PyStr ''a'' :: unit pyval, 1::int)), truthy = True,
         inverted_attr = None\<rparr>] [(''a'', 2)] =
     Inr (repeat (PyStr ''a'', 1)) \<and>
   (PyStr ''a'', 2) \<notin> set_iterator (repeat (PyStr ''a'' :: unit pyval, 1::int))"
  by (simp add: iteritems_args_kw_def Let_def iteritems_mapping_or_iterable_def chain_repeat
      set_repeat)

end
